theory Spec2Isabelle
  imports Complex_Main
begin

section \<open>Parameter data files of flavio: a model of \<open>flavio/parameters.py\<close>\<close>

text \<open>
  The Python floats of the source are modelled by the type \<open>real\<close>: sums, products,
  quotients and square roots are the exact ones. Every equation below is therefore an
  equation of the formulas the code evaluates, not of their rounded results. Python
  exceptions are values of the type \<open>error\<close>.
\<close>

type_synonym matrix = "real list list"

datatype error =
    KeyError string
  | TypeError
  | IndexError
  | ValueError
  | ZeroDivisionError
  | ParseError
  | DimensionMismatch
  | AssertionError string matrix

subsection \<open>Particle records and the derived quantities\<close>

text \<open>
  A record of the particle data table (class \<open>Particle\<close> of the external package
  \<open>particle\<close>, extended by \<open>FlavioParticle\<close>). The width fields are \<open>None\<close> when the
  table has no value; the mass fields are numbers, as \<open>flavio_m\<close> multiplies them without
  a test. The field \<open>latex_name_simplified\<close> stands for the value of the property of that
  name, a string the source computes from the particle's label by a regular expression.
\<close>

record particle =
  pdgid :: int
  name :: string
  latex_name_simplified :: string
  mass :: real
  mass_upper :: real
  mass_lower :: real
  width :: "real option"
  width_upper :: "real option"
  width_lower :: "real option"

definition PDG_PARTICLES :: "(string \<times> int) list" where
  "PDG_PARTICLES =
    [(''Bs'', 531), (''Bc'', 541), (''Bs*'', 533), (''B*+'', 523), (''B*0'', 513),
     (''B+'', 521), (''B0'', 511), (''Ds'', 431), (''Ds*'', 433), (''D+'', 411),
     (''D0'', 421), (''h'', 25), (''J/psi'', 443), (''KL'', 130), (''KS'', 310),
     (''K*+'', 323), (''K*0'', 313), (''K+'', 321), (''K0'', 311), (''Lambda'', 3122),
     (''Lambdab'', 5122), (''Lambdac'', 4122), (''omega'', 223), (''D*0'', 423),
     (''D*+'', 413), (''W'', 24), (''Z'', 23), (''e'', 11), (''eta'', 221),
     (''f0'', 9010221), (''mu'', 13), (''phi'', 333), (''pi+'', 211), (''pi0'', 111),
     (''psi(2S)'', 100443), (''rho+'', 213), (''rho0'', 113), (''t'', 6), (''tau'', 15),
     (''u'', 2), (''p'', 2212), (''n'', 2112)]"

text \<open>\<open>{v:k for k,v in PDG_PARTICLES.items()}\<close>: a later item overwrites an earlier one.\<close>

definition pdg_particles_inv :: "int \<Rightarrow> string option" where
  "pdg_particles_inv = map_of (rev (map (\<lambda>(k, v). (v, k)) PDG_PARTICLES))"

definition flavio_name :: "particle \<Rightarrow> string option" where
  "flavio_name p = pdg_particles_inv (pdgid p)"

text \<open>The six entries \<open>name, tex, description, central, right, left\<close> of a derived quantity.\<close>

type_synonym quantity_data = "string \<times> string \<times> string \<times> real \<times> real \<times> real"

definition data_name :: "quantity_data \<Rightarrow> string" where
  "data_name d = (case d of (n, t, ds, c, r, l) \<Rightarrow> n)"

definition data_central :: "quantity_data \<Rightarrow> real" where
  "data_central d = (case d of (n, t, ds, c, r, l) \<Rightarrow> c)"

definition data_right :: "quantity_data \<Rightarrow> real" where
  "data_right d = (case d of (n, t, ds, c, r, l) \<Rightarrow> r)"

definition data_left :: "quantity_data \<Rightarrow> real" where
  "data_left d = (case d of (n, t, ds, c, r, l) \<Rightarrow> l)"

definition m_tex :: "string \<Rightarrow> string" where
  "m_tex lns = ''$m_{'' @ lns @ ''}$''"

definition m_description :: "string \<Rightarrow> string \<Rightarrow> string" where
  "m_description lns pole_mass = ''$'' @ lns @ ''$'' @ pole_mass @ '' mass''"

definition tau_tex :: "string \<Rightarrow> string" where
  "tau_tex lns = ''$'' @ [CHR 0x5C] @ ''tau_{'' @ lns @ ''}$''"

definition tau_description :: "string \<Rightarrow> string" where
  "tau_description lns = ''$'' @ lns @ ''$ lifetime''"

text \<open>
  Property \<open>flavio_m\<close>. \<open>'m_' + self.flavio_name\<close> raises \<open>TypeError\<close> when the particle
  has no flavio name.
\<close>

definition flavio_m :: "particle \<Rightarrow> error + quantity_data" where
  "flavio_m p =
    (case flavio_name p of
       None \<Rightarrow> Inl TypeError
     | Some fn \<Rightarrow>
         Inr (''m_'' @ fn,
              m_tex (latex_name_simplified p),
              m_description (latex_name_simplified p)
                (if name p = ''t'' then '' quark pole'' else ''''),
              mass p * (1 / 1000),
              mass_upper p * (1 / 1000),
              mass_lower p * (1 / 1000)))"

text \<open>\<open>{self.width, self.width_upper, self.width_lower} & {None, 0}\<close> is not empty.\<close>

definition width_suppressed :: "particle \<Rightarrow> bool" where
  "width_suppressed p =
    ({width p, width_upper p, width_lower p} \<inter> {None, Some 0} \<noteq> {})"

text \<open>Python's \<open>/\<close> on floats raises \<open>ZeroDivisionError\<close> on a zero divisor.\<close>

definition py_div :: "real \<Rightarrow> real \<Rightarrow> error + real" where
  "py_div a b = (if b = 0 then Inl ZeroDivisionError else Inr (a / b))"

text \<open>
  Property \<open>flavio_tau\<close>: \<open>None\<close> when the test above holds; otherwise the name is built
  first, then the three widths are scaled and the three quotients are taken in the
  order \<open>central\<close>, \<open>right\<close>, \<open>left\<close>.
\<close>

definition flavio_tau :: "particle \<Rightarrow> error + quantity_data option" where
  "flavio_tau p =
    (if width_suppressed p then Inr None
     else
       (case (flavio_name p, width p, width_upper p, width_lower p) of
          (Some fn, Some w, Some wu, Some wl) \<Rightarrow>
            (let G_central = w * (1 / 1000);
                 G_right = wu * (1 / 1000);
                 G_left = wl * (1 / 1000)
             in case py_div 1 G_central of
                  Inl e \<Rightarrow> Inl e
                | Inr central \<Rightarrow>
                    (case py_div G_right (G_central ^ 2) of
                       Inl e \<Rightarrow> Inl e
                     | Inr right \<Rightarrow>
                         (case py_div G_left (G_central ^ 2) of
                            Inl e \<Rightarrow> Inl e
                          | Inr left \<Rightarrow>
                              Inr (Some (''tau_'' @ fn,
                                         tau_tex (latex_name_simplified p),
                                         tau_description (latex_name_simplified p),
                                         central, right, left)))))
        | _ \<Rightarrow> Inl TypeError))"

subsection \<open>The quantity registry and the constraint store\<close>

text \<open>
  Modelled from the spec: the probability distributions of \<open>flavio.statistics.probability\<close>,
  a module outside the file modelled here. The spec names three kinds; a distribution is
  the data its constructor receives.
\<close>

datatype distribution =
    NormalDistribution real (standard_deviation: real)
  | AsymmetricNormalDistribution real (right_deviation: real) (left_deviation: real)
  | MultivariateNormalDistribution "real list" (covariance: matrix)

text \<open>
  Modelled from the spec: the class \<open>Parameter\<close> of \<open>flavio.classes\<close>, a module outside
  the file modelled here: the registry of named quantities with an optional description
  and display label.
  \<open>Parameter[name]\<close> looks a name up and raises \<open>KeyError\<close> on an unknown one;
  \<open>Parameter(name)\<close> registers a name and reuses the entity when the name exists.
\<close>

record metadata =
  tex :: "string option"
  description :: "string option"

type_synonym constraint = "string list \<times> distribution"

record state =
  registry :: "string \<rightharpoonup> metadata"
  store :: "constraint list"

definition Parameter_getitem :: "state \<Rightarrow> string \<Rightarrow> error + metadata" where
  "Parameter_getitem s n =
    (case registry s n of None \<Rightarrow> Inl (KeyError n) | Some p \<Rightarrow> Inr p)"

definition Parameter_new :: "string \<Rightarrow> state \<Rightarrow> state" where
  "Parameter_new n s =
    (case registry s n of
       Some p \<Rightarrow> s
     | None \<Rightarrow> s\<lparr>registry := (registry s)(n \<mapsto> \<lparr>tex = None, description = None\<rparr>)\<rparr>)"

text \<open>The assignments \<open>p.tex = ...\<close> and \<open>p.description = ...\<close> on a registered quantity.\<close>

definition set_tex :: "string \<Rightarrow> string \<Rightarrow> state \<Rightarrow> state" where
  "set_tex n t s =
    (case registry s n of
       None \<Rightarrow> s
     | Some p \<Rightarrow> s\<lparr>registry := (registry s)(n \<mapsto> p\<lparr>tex := Some t\<rparr>)\<rparr>)"

definition set_description :: "string \<Rightarrow> string \<Rightarrow> state \<Rightarrow> state" where
  "set_description n d s =
    (case registry s n of
       None \<Rightarrow> s
     | Some p \<Rightarrow> s\<lparr>registry := (registry s)(n \<mapsto> p\<lparr>description := Some d\<rparr>)\<rparr>)"

text \<open>
  Modelled from the spec: the constraint store, class \<open>ParameterConstraints\<close> of
  \<open>flavio.classes\<close>, a module outside the file modelled here. \<open>add_constraint\<close> appends a
  constraint, removes no earlier one and fails on an unregistered name; \<open>remove_constraint\<close> removes every
  constraint whose names are exactly the given set and does nothing when none matches.
  A function that can raise returns the exception, if any, with the state it leaves.
\<close>

definition add_constraint :: "string list \<Rightarrow> distribution \<Rightarrow> state \<Rightarrow> error option \<times> state" where
  "add_constraint names d s =
    (case find (\<lambda>n. registry s n = None) names of
       Some n \<Rightarrow> (Some (KeyError n), s)
     | None \<Rightarrow> (None, s\<lparr>store := store s @ [(names, d)]\<rparr>))"

definition remove_constraint :: "string list \<Rightarrow> state \<Rightarrow> state" where
  "remove_constraint names s =
    s\<lparr>store := filter (\<lambda>c. set (fst c) \<noteq> set names) (store s)\<rparr>"

text \<open>
  Modelled from the spec: \<open>set_constraint\<close> builds the distribution of one quantity from
  its value and calls \<open>add_constraint\<close> for that name; it fails on an unregistered name.
  How a value becomes a distribution is the parameter \<open>build\<close>.
\<close>

definition set_constraint ::
  "('v \<Rightarrow> error + distribution) \<Rightarrow> string \<Rightarrow> 'v \<Rightarrow> state \<Rightarrow> error option \<times> state" where
  "set_constraint build n v s =
    (case registry s n of
       None \<Rightarrow> (Some (KeyError n), s)
     | Some p \<Rightarrow>
         (case build v of
            Inl e \<Rightarrow> (Some e, s)
          | Inr d \<Rightarrow> add_constraint [n] d s))"

text \<open>The number of constraints of the store whose names are exactly the given set.\<close>

definition count_constraints :: "state \<Rightarrow> string list \<Rightarrow> nat" where
  "count_constraints s names = length (filter (\<lambda>c. set (fst c) = set names) (store s))"

subsection \<open>The metadata reader\<close>

text \<open>
  \<open>_read_yaml_object_metadata\<close>. The YAML document is the list of its items; an item's
  \<open>info\<close> maps a key to its value, \<open>Some None\<close> for a key whose value is \<open>None\<close>.
\<close>

type_synonym info = "string \<rightharpoonup> string option"

definition read_metadata_entry :: "string \<times> info \<Rightarrow> state \<Rightarrow> state" where
  "read_metadata_entry e s =
    (case e of (parameter_name, info) \<Rightarrow>
       (let s1 = Parameter_new parameter_name s;
            s2 = (case info ''description'' of
                    Some (Some d) \<Rightarrow> set_description parameter_name d s1
                  | _ \<Rightarrow> s1)
        in case info ''tex'' of
             Some (Some t) \<Rightarrow> set_tex parameter_name t s2
           | _ \<Rightarrow> s2))"

definition read_yaml_object_metadata :: "(string \<times> info) list \<Rightarrow> state \<Rightarrow> state" where
  "read_yaml_object_metadata parameters s = fold read_metadata_entry parameters s"

subsection \<open>The values reader\<close>

text \<open>\<open>_read_yaml_object_values\<close>: the lookup \<open>Parameter[parameter_name]\<close>, then \<open>set_constraint\<close>.\<close>

definition read_values_entry ::
  "('v \<Rightarrow> error + distribution) \<Rightarrow> string \<times> 'v \<Rightarrow> state \<Rightarrow> error option \<times> state" where
  "read_values_entry build e s =
    (case e of (parameter_name, v) \<Rightarrow>
       (case Parameter_getitem s parameter_name of
          Inl err \<Rightarrow> (Some err, s)
        | Inr p \<Rightarrow> set_constraint build parameter_name v s))"

fun read_yaml_object_values ::
  "('v \<Rightarrow> error + distribution) \<Rightarrow> (string \<times> 'v) list \<Rightarrow> state \<Rightarrow> error option \<times> state" where
  "read_yaml_object_values build [] s = (None, s)"
| "read_yaml_object_values build (e # es) s =
    (case read_values_entry build e s of
       (Some err, s') \<Rightarrow> (Some err, s')
     | (None, s') \<Rightarrow> read_yaml_object_values build es s')"

subsection \<open>The reader of the particle data table\<close>

text \<open>
  The body of the inner loop of \<open>read_pdg\<close> for one derived quantity: the lookup, with the
  removal of the constraints on the name when it exists and the registration of the name
  when it does not; the two assignments; the choice of the distribution.
\<close>

definition read_pdg_data :: "quantity_data \<Rightarrow> state \<Rightarrow> error option \<times> state" where
  "read_pdg_data d s =
    (case d of (n, t, ds, central, right, left) \<Rightarrow>
       (let s1 = (case Parameter_getitem s n of
                    Inr p \<Rightarrow> remove_constraint [n] s
                  | Inl err \<Rightarrow> Parameter_new n s);
            s2 = set_tex n t s1;
            s3 = set_description n ds s2
        in if right = left
           then add_constraint [n] (NormalDistribution central right) s3
           else add_constraint [n] (AsymmetricNormalDistribution central right left) s3))"

text \<open>\<open>for data in (...)\<close>, with \<open>continue\<close> on \<open>None\<close>.\<close>

fun read_pdg_datas :: "quantity_data option list \<Rightarrow> state \<Rightarrow> error option \<times> state" where
  "read_pdg_datas [] s = (None, s)"
| "read_pdg_datas (None # ds) s = read_pdg_datas ds s"
| "read_pdg_datas (Some d # ds) s =
    (case read_pdg_data d s of
       (Some err, s') \<Rightarrow> (Some err, s')
     | (None, s') \<Rightarrow> read_pdg_datas ds s')"

text \<open>
  One particle: both properties are evaluated when the tuple is built, before the loop
  over it starts.
\<close>

definition read_pdg_particle :: "particle \<Rightarrow> state \<Rightarrow> error option \<times> state" where
  "read_pdg_particle p s =
    (case flavio_m p of
       Inl err \<Rightarrow> (Some err, s)
     | Inr m \<Rightarrow>
         (case flavio_tau p of
            Inl err \<Rightarrow> (Some err, s)
          | Inr t \<Rightarrow> read_pdg_datas [Some m, t] s))"

text \<open>
  \<open>flavio_all\<close>: the particles of the loaded table with a flavio name that is not empty.
  The list is the table in the order in which the set is iterated.
\<close>

definition flavio_all :: "particle list \<Rightarrow> particle list" where
  "flavio_all table =
    filter (\<lambda>p. case flavio_name p of None \<Rightarrow> False | Some fn \<Rightarrow> fn \<noteq> []) table"

fun read_pdg_loop :: "particle list \<Rightarrow> state \<Rightarrow> error option \<times> state" where
  "read_pdg_loop [] s = (None, s)"
| "read_pdg_loop (p # ps) s =
    (case read_pdg_particle p s of
       (Some err, s') \<Rightarrow> (Some err, s')
     | (None, s') \<Rightarrow> read_pdg_loop ps s')"

text \<open>\<open>read_pdg\<close>, on the table that \<open>load_table\<close> has loaded for the year.\<close>

definition read_pdg :: "particle list \<Rightarrow> state \<Rightarrow> error option \<times> state" where
  "read_pdg table s = read_pdg_loop (flavio_all table) s"

subsection \<open>The reader of correlated values\<close>

text \<open>The numpy expressions of the source on lists of rows.\<close>

definition outer :: "real list \<Rightarrow> real list \<Rightarrow> matrix" where
  "outer xs ys = map (\<lambda>x. map (\<lambda>y. x * y) ys) xs"

definition eye :: "nat \<Rightarrow> matrix" where
  "eye n = map (\<lambda>i. map (\<lambda>j. if i = j then 1 else 0) [0..<n]) [0..<n]"

definition mat_times :: "matrix \<Rightarrow> matrix \<Rightarrow> matrix" where
  "mat_times A B = map2 (map2 (*)) A B"

definition mat_minus :: "matrix \<Rightarrow> matrix \<Rightarrow> matrix" where
  "mat_minus A B = map2 (map2 (-)) A B"

definition mat_plus :: "matrix \<Rightarrow> matrix \<Rightarrow> matrix" where
  "mat_plus A B = map2 (map2 (+)) A B"

definition mat_scale :: "matrix \<Rightarrow> real \<Rightarrow> matrix" where
  "mat_scale A c = map (map (\<lambda>x. x * c)) A"

definition is_square :: "nat \<Rightarrow> matrix \<Rightarrow> bool" where
  "is_square n M = (length M = n \<and> list_all (\<lambda>row. length row = n) M)"

text \<open>
  Modelled from the spec: \<open>_fix_correlation_matrix\<close> of \<open>flavio.measurements\<close>, a module
  outside the file modelled here. How the raw correlation becomes a matrix is the
  parameter \<open>fixm\<close>; the spec has the dimension of the matrix validated against the
  number of quantities.
\<close>

definition fix_correlation_matrix ::
  "('c \<Rightarrow> nat \<Rightarrow> error + matrix) \<Rightarrow> 'c \<Rightarrow> nat \<Rightarrow> error + matrix" where
  "fix_correlation_matrix fixm corr n_dim =
    (case fixm corr n_dim of
       Inl e \<Rightarrow> Inl e
     | Inr M \<Rightarrow> if is_square n_dim M then Inr M else Inl DimensionMismatch)"

text \<open>
  The dictionary that \<open>errors_from_string\<close> of \<open>flavio._parse_errors\<close> returns; the parser
  itself is a parameter of the reader. An asymmetric error is the pair of its entries
  \<open>[0]\<close> and \<open>[1]\<close>.
\<close>

record error_dict =
  central_value :: real
  symmetric_errors :: "real list"
  asymmetric_errors :: "(real \<times> real) list"

text \<open>The two loops that accumulate \<open>squared_error\<close>, starting from \<open>0.\<close>.\<close>

definition squared_error :: "error_dict \<Rightarrow> real" where
  "squared_error ed =
    fold (\<lambda>asym_err acc. acc + fst asym_err * snd asym_err) (asymmetric_errors ed)
      (fold (\<lambda>sym_err acc. acc + sym_err ^ 2) (symmetric_errors ed) 0)"

text \<open>\<open>math.sqrt\<close> raises \<open>ValueError\<close> on a negative number.\<close>

definition py_sqrt :: "real \<Rightarrow> error + real" where
  "py_sqrt x = (if x < 0 then Inl ValueError else Inr (sqrt x))"

text \<open>
  A parameter group of the YAML document: \<open>values\<close> is a list of dictionaries, each the
  list of its items, and \<open>correlation\<close> is the raw correlation.
\<close>

record ('v, 'c) parameter_group =
  "values" :: "(string \<times> 'v) list list"
  correlation :: 'c

type_synonym group_acc = "string list \<times> real list \<times> real list"

text \<open>
  The body of the loop over \<open>parameter_group['values']\<close>; the accumulator is
  \<open>(parameter_names, central_values, errors)\<close>. \<open>list(dict_list.items())[0]\<close> raises
  \<open>IndexError\<close> on an empty dictionary.
\<close>

definition read_group_entry ::
  "('v \<Rightarrow> error + error_dict) \<Rightarrow> state \<Rightarrow> (string \<times> 'v) list \<Rightarrow> group_acc \<Rightarrow> error + group_acc" where
  "read_group_entry errors_from_string s dict_list acc =
    (case acc of (parameter_names, central_values, errors) \<Rightarrow>
       (case dict_list of
          [] \<Rightarrow> Inl IndexError
        | (parameter_name, v) # rest \<Rightarrow>
            (case Parameter_getitem s parameter_name of
               Inl e \<Rightarrow> Inl e
             | Inr p \<Rightarrow>
                 (case errors_from_string v of
                    Inl e \<Rightarrow> Inl e
                  | Inr ed \<Rightarrow>
                      (case py_sqrt (squared_error ed) of
                         Inl e \<Rightarrow> Inl e
                       | Inr err \<Rightarrow>
                           Inr (parameter_names @ [parameter_name],
                                central_values @ [central_value ed],
                                errors @ [err]))))))"

fun read_group_values ::
  "('v \<Rightarrow> error + error_dict) \<Rightarrow> state \<Rightarrow> (string \<times> 'v) list list \<Rightarrow> group_acc \<Rightarrow> error + group_acc" where
  "read_group_values errors_from_string s [] acc = Inr acc"
| "read_group_values errors_from_string s (dict_list # dls) acc =
    (case read_group_entry errors_from_string s dict_list acc of
       Inl e \<Rightarrow> Inl e
     | Inr acc' \<Rightarrow> read_group_values errors_from_string s dls acc')"

text \<open>
  \<open>np.all(np.linalg.eigvals(covariance) > 0)\<close>; the eigenvalue routine of numpy is the
  parameter \<open>eigvals\<close>.
\<close>

definition positive_definite :: "(matrix \<Rightarrow> real list) \<Rightarrow> matrix \<Rightarrow> bool" where
  "positive_definite eigvals C = list_all (\<lambda>x. x > 0) (eigvals C)"

definition build_covariance :: "real list \<Rightarrow> matrix \<Rightarrow> matrix" where
  "build_covariance errors corr = mat_times (outer errors errors) corr"

text \<open>\<open>(correlation - np.eye(n_dim))*0.99 + np.eye(n_dim)\<close> with \<open>n_dim = len(correlation)\<close>.\<close>

definition damp_correlation :: "matrix \<Rightarrow> matrix" where
  "damp_correlation corr =
    (let n_dim = length corr
     in mat_plus (mat_scale (mat_minus corr (eye n_dim)) (99 / 100)) (eye n_dim))"

definition not_positive_definite_msg :: string where
  "not_positive_definite_msg = ''The covariance matrix is not positive definite!''"

text \<open>
  The body of the loop over the groups. The failing \<open>assert\<close> is the exception
  \<open>AssertionError\<close> with the message and the covariance that \<open>str(covariance)\<close> prints.
\<close>

definition read_group ::
  "('v \<Rightarrow> error + error_dict) \<Rightarrow> ('c \<Rightarrow> nat \<Rightarrow> error + matrix) \<Rightarrow> (matrix \<Rightarrow> real list) \<Rightarrow>
     ('v, 'c) parameter_group \<Rightarrow> state \<Rightarrow> error option \<times> state" where
  "read_group errors_from_string fixm eigvals g s =
    (case read_group_values errors_from_string s (values g) ([], [], []) of
       Inl e \<Rightarrow> (Some e, s)
     | Inr (parameter_names, central_values, errors) \<Rightarrow>
         (case fix_correlation_matrix fixm (correlation g) (length parameter_names) of
            Inl e \<Rightarrow> (Some e, s)
          | Inr corr \<Rightarrow>
              (let cov = build_covariance errors corr
               in if \<not> positive_definite eigvals cov
                  then
                    (let corr' = damp_correlation corr;
                         cov' = build_covariance errors corr'
                     in if positive_definite eigvals cov'
                        then add_constraint parameter_names
                               (MultivariateNormalDistribution central_values cov') s
                        else (Some (AssertionError not_positive_definite_msg cov'), s))
                  else add_constraint parameter_names
                         (MultivariateNormalDistribution central_values cov) s)))"

fun read_yaml_object_values_correlated ::
  "('v \<Rightarrow> error + error_dict) \<Rightarrow> ('c \<Rightarrow> nat \<Rightarrow> error + matrix) \<Rightarrow> (matrix \<Rightarrow> real list) \<Rightarrow>
     ('v, 'c) parameter_group list \<Rightarrow> state \<Rightarrow> error option \<times> state" where
  "read_yaml_object_values_correlated errors_from_string fixm eigvals [] s = (None, s)"
| "read_yaml_object_values_correlated errors_from_string fixm eigvals (g # gs) s =
    (case read_group errors_from_string fixm eigvals g s of
       (Some e, s') \<Rightarrow> (Some e, s')
     | (None, s') \<Rightarrow> read_yaml_object_values_correlated errors_from_string fixm eigvals gs s')"

subsection \<open>Notions used to state the properties of the table reader\<close>

text \<open>The constraint that \<open>read_pdg\<close> adds for a derived quantity.\<close>

definition pdg_constraint :: "quantity_data \<Rightarrow> constraint" where
  "pdg_constraint d =
    (case d of (n, t, ds, central, right, left) \<Rightarrow>
       ([n], if right = left then NormalDistribution central right
             else AsymmetricNormalDistribution central right left))"

text \<open>The state that the loop body leaves for one derived quantity.\<close>

definition emit :: "quantity_data \<Rightarrow> state \<Rightarrow> state" where
  "emit d s = snd (read_pdg_data d s)"

text \<open>The derived quantities of a particle that are not \<open>None\<close>, in the order of the tuple.\<close>

definition particle_data :: "particle \<Rightarrow> quantity_data list" where
  "particle_data p =
    (case (flavio_m p, flavio_tau p) of
       (Inr m, Inr None) \<Rightarrow> [m]
     | (Inr m, Inr (Some t)) \<Rightarrow> [m, t]
     | _ \<Rightarrow> [])"

definition registered :: "state \<Rightarrow> string \<Rightarrow> bool" where
  "registered s n = (registry s n \<noteq> None)"


text \<open>The three numbers \<open>central, right, left\<close> of the lifetime, when there is one.\<close>

definition tau_numbers :: "particle \<Rightarrow> (real \<times> real \<times> real) option" where
  "tau_numbers p =
    (case flavio_tau p of
       Inr (Some d) \<Rightarrow> Some (data_central d, data_right d, data_left d)
     | _ \<Rightarrow> None)"


subsection \<open>Notions used to state the properties of the reader of correlated values\<close>

text \<open>
  The total error of a quantity in the words of the spec: the square root of the sum of
  the squares of the symmetric errors and of the products of the upper and the lower
  magnitude of the asymmetric errors.
\<close>

definition spec_total_error :: "error_dict \<Rightarrow> real" where
  "spec_total_error ed =
    sqrt (sum_list (map (\<lambda>sym. sym ^ 2) (symmetric_errors ed)) +
          sum_list (map (\<lambda>(upper, lower). upper * lower) (asymmetric_errors ed)))"

text \<open>
  What the loop over the values of a group appends for a dictionary: the name of its
  first item, which is registered, and the central value and the total error of the
  parsed value.
\<close>

definition entry_result ::
  "('v \<Rightarrow> error + error_dict) \<Rightarrow> state \<Rightarrow> (string \<times> 'v) list \<Rightarrow> string \<times> real \<times> real \<Rightarrow> bool" where
  "entry_result errors_from_string s dict_list r =
    (case r of (n, c, e) \<Rightarrow>
       (\<exists>v rest ed. dict_list = (n, v) # rest \<and> registered s n \<and>
          errors_from_string v = Inr ed \<and> c = central_value ed \<and> e = spec_total_error ed))"

subsection \<open>Concrete inputs\<close>

text \<open>
  A \<open>B_s\<close> record with width 1000, upper width uncertainty 100 and lower width
  uncertainty 200 in the units of the table, so that \<open>G_central = 1\<close>, \<open>G_right = 0.1\<close>
  and \<open>G_left = 0.2\<close>; its mass uncertainties are equal.
\<close>

definition particle_Bs_example :: particle where
  "particle_Bs_example =
    \<lparr>pdgid = 531, name = ''B(s)0'', latex_name_simplified = ''B_{s}'',
     mass = 5366, mass_upper = 100, mass_lower = 100,
     width = Some 1000, width_upper = Some 100, width_lower = Some 200\<rparr>"

text \<open>A \<open>K^+\<close> record with no width and with mass uncertainties that differ.\<close>

definition particle_K_example :: particle where
  "particle_K_example =
    \<lparr>pdgid = 321, name = ''K+'', latex_name_simplified = ''K'',
     mass = 493, mass_upper = 100, mass_lower = 200,
     width = None, width_upper = None, width_lower = None\<rparr>"

text \<open>A \<open>D^0\<close> record with a width whose upper uncertainty is the number zero.\<close>

definition particle_D0_example :: particle where
  "particle_D0_example =
    \<lparr>pdgid = 421, name = ''D0'', latex_name_simplified = ''D'',
     mass = 1864, mass_upper = 50, mass_lower = 50,
     width = Some 2, width_upper = Some 0, width_lower = Some 1\<rparr>"

text \<open>A record of a particle that flavio does not use.\<close>

definition particle_unused_example :: particle where
  "particle_unused_example =
    \<lparr>pdgid = 12, name = ''nu(e)'', latex_name_simplified = ''nu'',
     mass = 0, mass_upper = 0, mass_lower = 0,
     width = None, width_upper = None, width_lower = None\<rparr>"

definition empty_state :: state where
  "empty_state = \<lparr>registry = Map.empty, store = []\<rparr>"


text \<open>A state with the one quantity \<open>x\<close>, described and labelled, and no constraint.\<close>

definition state_x_example :: state where
  "state_x_example =
    \<lparr>registry = [''x'' \<mapsto> \<lparr>tex = Some ''X'', description = Some ''old''\<rparr>], store = []\<rparr>"

text \<open>
  A metadata document: \<open>x\<close> with a \<open>description\<close> that is \<open>None\<close> and a new \<open>tex\<close>, and
  \<open>y\<close> with no key.
\<close>

definition metadata_example :: "(string \<times> info) list" where
  "metadata_example =
    [(''x'', [''description'' \<mapsto> None, ''tex'' \<mapsto> Some ''new'']), (''y'', Map.empty)]"

text \<open>
  A values document whose second name \<open>y\<close> is not registered in \<open>state_x_example\<close>,
  and a builder of distributions for its numbers.
\<close>

definition values_example :: "(string \<times> real) list" where
  "values_example = [(''x'', 3), (''y'', 4), (''x'', 5)]"

definition build_example :: "real \<Rightarrow> error + distribution" where
  "build_example v = Inr (NormalDistribution v 1)"

text \<open>
  The eigenvalues of a matrix with one entry and of a matrix of two rows and columns
  (real when the matrix is symmetric), for the concrete groups below.
\<close>

definition eigvals_example :: "matrix \<Rightarrow> real list" where
  "eigvals_example C =
    (case C of
       [[a]] \<Rightarrow> [a]
     | [[a, b], [c, d]] \<Rightarrow>
         [(a + d + sqrt ((a - d) ^ 2 + 4 * b * c)) / 2,
          (a + d - sqrt ((a - d) ^ 2 + 4 * b * c)) / 2]
     | _ \<Rightarrow> [])"

definition state_ab_example :: state where
  "state_ab_example =
    \<lparr>registry = [''a'' \<mapsto> \<lparr>tex = None, description = None\<rparr>,
                 ''b'' \<mapsto> \<lparr>tex = None, description = None\<rparr>],
     store = []\<rparr>"

text \<open>
  Two parsed values, each of total error 5: one symmetric error 3 with one asymmetric
  error (8, 2), and the two symmetric errors 3 and 4.
\<close>

definition ed_a_example :: error_dict where
  "ed_a_example = \<lparr>central_value = 1, symmetric_errors = [3], asymmetric_errors = [(8, 2)]\<rparr>"

definition ed_b_example :: error_dict where
  "ed_b_example = \<lparr>central_value = 2, symmetric_errors = [3, 4], asymmetric_errors = []\<rparr>"

text \<open>A group of the two quantities with a given correlation, already parsed and already a matrix.\<close>

definition group_example :: "matrix \<Rightarrow> (error_dict, matrix) parameter_group" where
  "group_example M =
    \<lparr>values = [[(''a'', ed_a_example)], [(''b'', ed_b_example)]], correlation = M\<rparr>"

definition parsed_example :: "error_dict \<Rightarrow> error + error_dict" where
  "parsed_example ed = Inr ed"

definition fixm_example :: "matrix \<Rightarrow> nat \<Rightarrow> error + matrix" where
  "fixm_example M n = Inr M"

text \<open>
  Three correlations of the two quantities: 0.6, which gives a positive definite
  covariance; 1, whose covariance is positive definite only after the damping; and 2,
  whose covariance is not positive definite after the damping either.
\<close>

definition corr_ok_example :: matrix where
  "corr_ok_example = [[1, 3 / 5], [3 / 5, 1]]"

definition corr_full_example :: matrix where
  "corr_full_example = [[1, 1], [1, 1]]"

definition corr_bad_example :: matrix where
  "corr_bad_example = [[1, 2], [2, 1]]"

section \<open>Properties\<close>

subsection \<open>The derived quantities\<close>

lemma flavio_name_Bs: "flavio_name particle_Bs_example = Some ''Bs''"
  by (simp add: flavio_name_def pdg_particles_inv_def PDG_PARTICLES_def particle_Bs_example_def)

lemma flavio_name_K: "flavio_name particle_K_example = Some ''K+''"
  by (simp add: flavio_name_def pdg_particles_inv_def PDG_PARTICLES_def particle_K_example_def)

lemma flavio_name_D0: "flavio_name particle_D0_example = Some ''D0''"
  by (simp add: flavio_name_def pdg_particles_inv_def PDG_PARTICLES_def particle_D0_example_def)


lemma width_suppressed_iff:
  "width_suppressed p \<longleftrightarrow>
     width p = None \<or> width p = Some 0 \<or> width_upper p = None \<or> width_upper p = Some 0 \<or>
     width_lower p = None \<or> width_lower p = Some 0"
  by (auto simp: width_suppressed_def)

lemma flavio_tau_defined:
  assumes "flavio_name p = Some fn" "width p = Some w" "width_upper p = Some wu"
    "width_lower p = Some wl" "w \<noteq> 0" "wu \<noteq> 0" "wl \<noteq> 0"
  shows "flavio_tau p =
     Inr (Some (''tau_'' @ fn, tau_tex (latex_name_simplified p),
                tau_description (latex_name_simplified p),
                1 / (w * (1 / 1000)),
                (wu * (1 / 1000)) / (w * (1 / 1000)) ^ 2,
                (wl * (1 / 1000)) / (w * (1 / 1000)) ^ 2))"
  using assms by (simp add: flavio_tau_def width_suppressed_iff py_div_def Let_def)

lemma flavio_tau_None_iff: "flavio_tau p = Inr None \<longleftrightarrow> width_suppressed p"
  by (auto simp: flavio_tau_def width_suppressed_iff py_div_def Let_def split: option.splits)

lemma flavio_tau_no_zero_division: "flavio_tau p \<noteq> Inl ZeroDivisionError"
  by (auto simp: flavio_tau_def width_suppressed_iff py_div_def Let_def split: option.splits)

lemma flavio_tau_Bs:
  "flavio_tau particle_Bs_example =
     Inr (Some (''tau_Bs'', tau_tex ''B_{s}'', tau_description ''B_{s}'', 1, 1 / 10, 1 / 5))"
  using flavio_tau_defined [OF flavio_name_Bs, of 1000 100 200]
  by (simp add: particle_Bs_example_def)

subsection \<open>The store and the loops of the table reader\<close>

lemma add_constraint_registered:
  "\<forall>n\<in>set names. registry s n \<noteq> None \<Longrightarrow>
     add_constraint names d s = (None, s\<lparr>store := store s @ [(names, d)]\<rparr>)"
proof -
  assume a: "\<forall>n\<in>set names. registry s n \<noteq> None"
  have "find (\<lambda>n. registry s n = None) names = None"
    using a by (simp add: find_None_iff)
  then show ?thesis by (simp add: add_constraint_def)
qed

lemma metadata_overwrite:
  "(a::metadata)\<lparr>tex := Some t, description := Some ds\<rparr> = \<lparr>tex = Some t, description = Some ds\<rparr>"
  by (cases a) simp

lemma read_pdg_data_no_error: "fst (read_pdg_data d s) = None"
  by (cases d; cases "registry s (fst d)")
     (simp_all add: read_pdg_data_def Parameter_getitem_def Parameter_new_def set_tex_def
        set_description_def remove_constraint_def add_constraint_def Let_def)

lemma read_pdg_data_emit: "read_pdg_data d s = (None, emit d s)"
  using read_pdg_data_no_error [of d s] by (simp add: emit_def prod_eq_iff)

lemma emit_registry:
  "registry (emit (n, t, ds, c, r, l) s) = (registry s)(n \<mapsto> \<lparr>tex = Some t, description = Some ds\<rparr>)"
  by (cases "registry s n")
     (simp_all add: emit_def read_pdg_data_def Parameter_getitem_def Parameter_new_def set_tex_def
        set_description_def remove_constraint_def add_constraint_def Let_def metadata_overwrite)

lemma emit_store:
  "store (emit (n, t, ds, c, r, l) s) =
     (if registry s n = None then store s
      else filter (\<lambda>c. set (fst c) \<noteq> {n}) (store s)) @ [pdg_constraint (n, t, ds, c, r, l)]"
  by (cases "registry s n")
     (simp_all add: emit_def read_pdg_data_def Parameter_getitem_def Parameter_new_def set_tex_def
        set_description_def remove_constraint_def add_constraint_def Let_def pdg_constraint_def)

lemma count_emit:
  "count_constraints (emit d s) [n0] =
     (if data_name d = n0
      then (if registry s n0 = None then count_constraints s [n0] + 1 else 1)
      else count_constraints s [n0])"
proof (cases d)
  case (fields n t ds c r l)
  have eq: "\<And>k::string list. (set k \<noteq> {n} \<and> set k = {n0}) = (set k = {n0})" if "n \<noteq> n0"
    using that by auto
  show ?thesis
    unfolding fields
    by (auto simp: count_constraints_def emit_store data_name_def pdg_constraint_def eq
          filter_empty_conv cong: conj_cong)
qed

lemma emit_registered: "registered (emit d s) (data_name d)"
  by (cases d) (simp add: registered_def emit_registry data_name_def)









lemma flavio_all_named:
  "p \<in> set (flavio_all table) \<Longrightarrow> \<exists>fn. flavio_name p = Some fn"
  by (auto simp: flavio_all_def split: option.splits)

lemma flavio_tau_cases:
  "flavio_name p = Some fn \<Longrightarrow>
     flavio_tau p = Inr None \<or>
     (\<exists>t ds c r l. flavio_tau p = Inr (Some (''tau_'' @ fn, t, ds, c, r, l)))"
  by (auto simp: flavio_tau_def width_suppressed_def py_div_def Let_def split: option.splits)

lemma flavio_m_named:
  "flavio_name p = Some fn \<Longrightarrow> \<exists>t ds c r l. flavio_m p = Inr (''m_'' @ fn, t, ds, c, r, l)"
  unfolding flavio_m_def by (simp only: option.case) blast

lemma read_pdg_particle_fold:
  assumes "flavio_name p = Some fn"
  shows "read_pdg_particle p s = (None, fold emit (particle_data p) s)"
proof -
  obtain t ds c r l where m: "flavio_m p = Inr (''m_'' @ fn, t, ds, c, r, l)"
    using flavio_m_named [OF assms] by blast
  from flavio_tau_cases [OF assms] show ?thesis
  proof
    assume "flavio_tau p = Inr None"
    then show ?thesis
      by (simp add: read_pdg_particle_def particle_data_def m read_pdg_data_emit)
  next
    assume "\<exists>t ds c r l. flavio_tau p = Inr (Some (''tau_'' @ fn, t, ds, c, r, l))"
    then obtain t' ds' c' r' l' where
      "flavio_tau p = Inr (Some (''tau_'' @ fn, t', ds', c', r', l'))" by blast
    then show ?thesis
      by (simp add: read_pdg_particle_def particle_data_def m read_pdg_data_emit)
  qed
qed

lemma read_pdg_loop_fold:
  "\<forall>p\<in>set ps. \<exists>fn. flavio_name p = Some fn \<Longrightarrow>
     read_pdg_loop ps s = (None, fold emit (concat (map particle_data ps)) s)"
proof (induction ps arbitrary: s)
  case Nil
  then show ?case by simp
next
  case (Cons p ps)
  then obtain fn where "flavio_name p = Some fn" by auto
  then have "read_pdg_particle p s = (None, fold emit (particle_data p) s)"
    by (rule read_pdg_particle_fold)
  with Cons show ?case by simp
qed

lemma read_pdg_fold:
  "read_pdg table s = (None, fold emit (concat (map particle_data (flavio_all table))) s)"
  unfolding read_pdg_def
  by (rule read_pdg_loop_fold) (simp add: flavio_all_named)

subsection \<open>Claims about the lifetime\<close>

text \<open>
  C1, as amended. For a particle with a flavio name whose width and width uncertainties
  are defined and not zero, with \<open>G = width * 1e-3\<close>, \<open>G_right = width_upper * 1e-3\<close> and
  \<open>G_left = width_lower * 1e-3\<close>, \<open>flavio_tau\<close> returns the central value \<open>1 / G\<close>, the
  right uncertainty \<open>G_right / G\<^sup>2\<close> and the left uncertainty \<open>G_left / G\<^sup>2\<close>: the sides
  are not swapped.
\<close>

theorem flavio_tau_propagation:
  assumes "flavio_name p = Some fn" "width p = Some w" "width_upper p = Some wu"
    "width_lower p = Some wl" "w \<noteq> 0" "wu \<noteq> 0" "wl \<noteq> 0"
  shows "flavio_tau p =
     Inr (Some (''tau_'' @ fn, tau_tex (latex_name_simplified p),
                tau_description (latex_name_simplified p),
                1 / (w * (1 / 1000)),
                (wu * (1 / 1000)) / (w * (1 / 1000)) ^ 2,
                (wl * (1 / 1000)) / (w * (1 / 1000)) ^ 2)) \<and>
    tau_numbers p =
      Some (1 / (w * (1 / 1000)),
            (wu * (1 / 1000)) / (w * (1 / 1000)) ^ 2,
            (wl * (1 / 1000)) / (w * (1 / 1000)) ^ 2)"
proof -
  have eq: "flavio_tau p =
     Inr (Some (''tau_'' @ fn, tau_tex (latex_name_simplified p),
                tau_description (latex_name_simplified p),
                1 / (w * (1 / 1000)),
                (wu * (1 / 1000)) / (w * (1 / 1000)) ^ 2,
                (wl * (1 / 1000)) / (w * (1 / 1000)) ^ 2))"
    using assms by (rule flavio_tau_defined)
  show ?thesis
    unfolding tau_numbers_def eq
    by (simp add: data_central_def data_right_def data_left_def)
qed

theorem flavio_tau_propagation_witness:
  "flavio_name particle_Bs_example = Some ''Bs'' \<and>
   width particle_Bs_example = Some 1000 \<and>
   width_upper particle_Bs_example = Some 100 \<and>
   width_lower particle_Bs_example = Some 200 \<and>
   flavio_tau particle_Bs_example =
     Inr (Some (''tau_Bs'', tau_tex ''B_{s}'', tau_description ''B_{s}'', 1, 1 / 10, 1 / 5)) \<and>
   tau_numbers particle_Bs_example = Some (1, 1 / 10, 1 / 5)"
  using flavio_tau_propagation [OF flavio_name_Bs, of 1000 100 200]
  by (simp add: particle_Bs_example_def flavio_name_Bs [unfolded particle_Bs_example_def])

text \<open>
  C1 as stated fails: at \<open>G = 1\<close>, \<open>G_right = 0.1\<close>, \<open>G_left = 0.2\<close> the code returns the
  right uncertainty 0.1 and the left uncertainty 0.2, not \<open>G_left / G\<^sup>2 = 0.2\<close> and
  \<open>G_right / G\<^sup>2 = 0.1\<close>.
\<close>

theorem flavio_tau_swap_counterexample:
  "tau_numbers particle_Bs_example = Some (1, 1 / 10, 1 / 5) \<and>
   tau_numbers particle_Bs_example \<noteq>
     Some (1 / (1000 * (1 / 1000)),
           (200 * (1 / 1000)) / (1000 * (1 / 1000)) ^ 2,
           (100 * (1 / 1000)) / (1000 * (1 / 1000)) ^ 2)"
  by (simp add: tau_numbers_def flavio_tau_Bs data_central_def data_right_def data_left_def)

text \<open>
  C9. A width uncertainty that is the number zero suppresses the lifetime as an
  undefined one does: \<open>flavio_tau\<close> is \<open>None\<close> exactly when one of the width and its two
  uncertainties is undefined or zero, and then the reader of the table processes the
  mass of the particle only.
\<close>

theorem flavio_tau_zero_uncertainty:
  "(width_upper p = Some 0 \<or> width_lower p = Some 0 \<longrightarrow>
      flavio_tau p = Inr None \<and>
      read_pdg_particle p s =
        (case flavio_m p of Inl e \<Rightarrow> (Some e, s) | Inr m \<Rightarrow> read_pdg_data m s)) \<and>
   (flavio_tau p = Inr None \<longleftrightarrow>
      width p = None \<or> width p = Some 0 \<or>
      width_upper p = None \<or> width_upper p = Some 0 \<or>
      width_lower p = None \<or> width_lower p = Some 0)"
proof -
  have iff: "flavio_tau p = Inr None \<longleftrightarrow>
      width p = None \<or> width p = Some 0 \<or>
      width_upper p = None \<or> width_upper p = Some 0 \<or>
      width_lower p = None \<or> width_lower p = Some 0"
    by (simp only: flavio_tau_None_iff width_suppressed_iff)
  have skip: "read_pdg_particle p s =
        (case flavio_m p of Inl e \<Rightarrow> (Some e, s) | Inr m \<Rightarrow> read_pdg_data m s)"
    if "flavio_tau p = Inr None"
    using that read_pdg_data_no_error
    by (auto simp: read_pdg_particle_def read_pdg_data_emit split: sum.splits)
  show ?thesis using iff skip by blast
qed

theorem flavio_tau_zero_uncertainty_witness:
  "width particle_D0_example = Some 2 \<and>
   width_upper particle_D0_example = Some 0 \<and>
   flavio_tau particle_D0_example = Inr None \<and>
   read_pdg_particle particle_D0_example empty_state =
     (None, \<lparr>registry = [''m_D0'' \<mapsto> \<lparr>tex = Some (m_tex ''D''),
                                       description = Some (m_description ''D'' [])\<rparr>],
             store = [([''m_D0''], NormalDistribution (1864 / 1000) (1 / 20))]\<rparr>)"
proof -
  have up: "width_upper particle_D0_example = Some 0"
    by (simp add: particle_D0_example_def)
  have m: "flavio_m particle_D0_example =
      Inr (''m_D0'', m_tex ''D'', m_description ''D'' [], 1864 / 1000, 1 / 20, 1 / 20)"
    by (simp add: flavio_m_def flavio_name_D0) (simp add: particle_D0_example_def)
  have "flavio_tau particle_D0_example = Inr None \<and>
      read_pdg_particle particle_D0_example empty_state =
        (case flavio_m particle_D0_example of
           Inl e \<Rightarrow> (Some e, empty_state)
         | Inr m \<Rightarrow> read_pdg_data m empty_state)"
    using flavio_tau_zero_uncertainty [of particle_D0_example empty_state] up by blast
  then show ?thesis
    unfolding m
    by (simp add: particle_D0_example_def empty_state_def read_pdg_data_def
        Parameter_getitem_def Parameter_new_def set_tex_def set_description_def
        add_constraint_def Let_def)
qed

subsection \<open>Claims about the reader of the particle data table\<close>

lemma m_not_tau: "''m_'' @ fn \<noteq> ''tau_'' @ fn'"
  by simp

lemma read_pdg_no_error: "fst (read_pdg table s) = None"
  by (simp add: read_pdg_fold)

lemma particle_data_no_tau:
  "flavio_m p = Inr m \<Longrightarrow> flavio_tau p = Inr None \<Longrightarrow> particle_data p = [m]"
  by (simp add: particle_data_def)

lemma last_store_emit: "last (store (emit d s)) = pdg_constraint d"
  by (cases d) (simp add: emit_store)

text \<open>
  C5. When the width is zero, or the width or one of its uncertainties is undefined,
  \<open>flavio_tau\<close> is \<open>None\<close>; for a particle that flavio uses, the reader then raises no
  error, adds the constraint of the mass as the last of the store, and leaves the
  registry entry and the constraints of the lifetime name as they were. The reader of
  a whole table raises no error either.
\<close>

theorem lifetime_skipped_without_width:
  assumes "width p = None \<or> width p = Some 0 \<or> width_upper p = None \<or> width_lower p = None"
  shows "flavio_tau p = Inr None \<and>
    (\<forall>fn. flavio_name p = Some fn \<longrightarrow>
       (\<exists>m. flavio_m p = Inr m \<and> data_name m = ''m_'' @ fn \<and>
            read_pdg_particle p s = (None, emit m s) \<and>
            last (store (emit m s)) = pdg_constraint m \<and>
            registered (emit m s) (''m_'' @ fn) \<and>
            count_constraints (emit m s) [''tau_'' @ fn] = count_constraints s [''tau_'' @ fn] \<and>
            registry (emit m s) (''tau_'' @ fn) = registry s (''tau_'' @ fn))) \<and>
    fst (read_pdg table s) = None"
proof -
  have none: "flavio_tau p = Inr None"
    using assms by (simp add: flavio_tau_None_iff width_suppressed_iff) blast
  have mass: "\<exists>m. flavio_m p = Inr m \<and> data_name m = ''m_'' @ fn \<and>
            read_pdg_particle p s = (None, emit m s) \<and>
            last (store (emit m s)) = pdg_constraint m \<and>
            registered (emit m s) (''m_'' @ fn) \<and>
            count_constraints (emit m s) [''tau_'' @ fn] = count_constraints s [''tau_'' @ fn] \<and>
            registry (emit m s) (''tau_'' @ fn) = registry s (''tau_'' @ fn)"
    if named: "flavio_name p = Some fn" for fn
  proof -
    obtain t ds c r l where m: "flavio_m p = Inr (''m_'' @ fn, t, ds, c, r, l)"
      using flavio_m_named [OF named] by blast
    let ?m = "(''m_'' @ fn, t, ds, c, r, l)"
    have nm: "data_name ?m = ''m_'' @ fn"
      by (simp add: data_name_def)
    have run: "read_pdg_particle p s = (None, emit ?m s)"
      using read_pdg_particle_fold [OF named, of s] particle_data_no_tau [OF m none] by simp
    have reg: "registered (emit ?m s) (''m_'' @ fn)"
      using emit_registered [of ?m s] nm by simp
    have cnt: "count_constraints (emit ?m s) [''tau_'' @ fn] = count_constraints s [''tau_'' @ fn]"
      unfolding count_emit nm using m_not_tau [of fn fn] by simp
    have other: "registry (emit ?m s) (''tau_'' @ fn) = registry s (''tau_'' @ fn)"
      by (simp add: emit_registry)
    show ?thesis
      using m nm run reg cnt other last_store_emit [of ?m s] by blast
  qed
  show ?thesis
    using none mass read_pdg_no_error [of table s] by blast
qed

theorem lifetime_skipped_without_width_witness:
  "width particle_K_example = None \<and>
   flavio_tau particle_K_example = Inr None \<and>
   (\<exists>m. flavio_m particle_K_example = Inr m \<and> data_name m = ''m_K+'' \<and>
        read_pdg_particle particle_K_example empty_state = (None, emit m empty_state) \<and>
        last (store (emit m empty_state)) = pdg_constraint m \<and>
        count_constraints (emit m empty_state) [''tau_K+''] = 0) \<and>
   fst (read_pdg [particle_K_example, particle_unused_example] empty_state) = None"
proof -
  have w: "width particle_K_example = None"
    by (simp add: particle_K_example_def)
  have z: "count_constraints empty_state [''tau_K+''] = 0"
    by (simp add: count_constraints_def empty_state_def)
  show ?thesis
    using lifetime_skipped_without_width
      [of particle_K_example empty_state "[particle_K_example, particle_unused_example]"]
      w z flavio_name_K
    by auto
qed

text \<open>
  C6. The constraint that the reader adds for a derived quantity is on that one name:
  a \<open>NormalDistribution\<close> with the right uncertainty as its standard deviation when
  the right and the left uncertainty are equal, and otherwise an
  \<open>AsymmetricNormalDistribution\<close> with the right uncertainty as \<open>right_deviation\<close> and
  the left one as \<open>left_deviation\<close>. Every constraint that reading a table adds to
  the store is such a constraint of a derived quantity of a particle of the table.
\<close>

theorem pdg_distribution_choice:
  "read_pdg_data (n, t, ds, c, r, l) s = (None, emit (n, t, ds, c, r, l) s) \<and>
   store (emit (n, t, ds, c, r, l) s) =
     (if registry s n = None then store s
      else filter (\<lambda>k. set (fst k) \<noteq> {n}) (store s)) @
     [([n], if r = l then NormalDistribution c r else AsymmetricNormalDistribution c r l)] \<and>
   (\<exists>s'. read_pdg table s = (None, s') \<and>
      set (store s') \<subseteq>
        set (store s) \<union> pdg_constraint ` set (concat (map particle_data (flavio_all table))))"
proof -
  have sub: "set (store (fold emit xs s0)) \<subseteq> set (store s0) \<union> pdg_constraint ` set xs"
    for xs s0
  proof (induction xs arbitrary: s0)
    case Nil
    then show ?case by simp
  next
    case (Cons d xs)
    have "set (store (emit d s0)) \<subseteq> set (store s0) \<union> {pdg_constraint d}"
      by (cases d) (auto simp: emit_store)
    with Cons [of "emit d s0"] show ?case by auto
  qed
  show ?thesis
    using sub [of "concat (map particle_data (flavio_all table))" s]
    by (simp add: read_pdg_data_emit emit_store pdg_constraint_def read_pdg_fold)
qed

theorem pdg_distribution_choice_witness:
  "store (emit (''m_x'', ''x'', ''x mass'', 5, 1 / 10, 1 / 10) empty_state) =
     [([''m_x''], NormalDistribution 5 (1 / 10))] \<and>
   (standard_deviation (NormalDistribution 5 (1 / 10))) ^ 2 = 1 / 100 \<and>
   store (emit (''m_x'', ''x'', ''x mass'', 5, 1 / 10, 1 / 5) empty_state) =
     [([''m_x''], AsymmetricNormalDistribution 5 (1 / 10) (1 / 5))] \<and>
   right_deviation (AsymmetricNormalDistribution 5 (1 / 10) (1 / 5)) = 1 / 10 \<and>
   left_deviation (AsymmetricNormalDistribution 5 (1 / 10) (1 / 5)) = 1 / 5"
  using pdg_distribution_choice [of "''m_x''" "''x''" "''x mass''" 5 "1 / 10" "1 / 10" empty_state "[]"]
    pdg_distribution_choice [of "''m_x''" "''x''" "''x mass''" 5 "1 / 10" "1 / 5" empty_state "[]"]
  by (simp add: empty_state_def power2_eq_square)

















subsection \<open>Claims about the metadata reader\<close>

text \<open>The metadata that \<open>Parameter(name)\<close> gives: the registered ones, or those of a new quantity.\<close>

lemma registry_Parameter_new:
  "registry (Parameter_new n s) =
     (registry s)(n \<mapsto> (case registry s n of None \<Rightarrow> \<lparr>tex = None, description = None\<rparr>
                                           | Some p \<Rightarrow> p))"
  by (cases "registry s n") (auto simp: Parameter_new_def)

lemma store_Parameter_new: "store (Parameter_new n s) = store s"
  by (cases "registry s n") (simp_all add: Parameter_new_def)

lemma store_set_tex: "store (set_tex n t s) = store s"
  by (cases "registry s n") (simp_all add: set_tex_def)

lemma store_set_description: "store (set_description n d s) = store s"
  by (cases "registry s n") (simp_all add: set_description_def)

lemma store_read_metadata_entry: "store (read_metadata_entry e s) = store s"
  by (cases e)
     (simp add: read_metadata_entry_def Let_def store_Parameter_new store_set_tex
        store_set_description split: option.splits)

lemma store_read_metadata: "store (fold read_metadata_entry ps s) = store s"
  by (induction ps arbitrary: s) (simp_all add: store_read_metadata_entry)

lemma registry_entry_other:
  "n' \<noteq> n \<Longrightarrow> registry (read_metadata_entry (n, info) s) n' = registry s n'"
  by (cases "registry s n")
     (simp_all add: read_metadata_entry_def Let_def Parameter_new_def set_tex_def
        set_description_def split: option.splits)

lemma registry_entry_same:
  "registry (read_metadata_entry (n, info) s) n =
     Some \<lparr>tex = (case info ''tex'' of Some (Some t) \<Rightarrow> Some t
                   | _ \<Rightarrow> (case registry s n of None \<Rightarrow> None | Some p \<Rightarrow> tex p)),
           description = (case info ''description'' of Some (Some d) \<Rightarrow> Some d
                   | _ \<Rightarrow> (case registry s n of None \<Rightarrow> None | Some p \<Rightarrow> description p))\<rparr>"
  by (cases "registry s n")
     (simp_all add: read_metadata_entry_def Let_def Parameter_new_def set_tex_def
        set_description_def split: option.splits)

lemma registry_fold_other:
  "n \<notin> fst ` set ps \<Longrightarrow> registry (fold read_metadata_entry ps s) n = registry s n"
proof (induction ps arbitrary: s)
  case Nil
  then show ?case by simp
next
  case (Cons e ps)
  obtain n' info where e: "e = (n', info)" by (cases e)
  have "n \<noteq> n'" using Cons.prems e by auto
  then have "registry (read_metadata_entry e s) n = registry s n"
    by (simp add: e registry_entry_other)
  with Cons show ?case by simp
qed

lemma registry_fold_entry:
  assumes "distinct (map fst ps)" "(n, info) \<in> set ps"
  shows "registry (fold read_metadata_entry ps s) n =
           registry (read_metadata_entry (n, info) s) n"
proof -
  obtain pre post where ps: "ps = pre @ (n, info) # post"
    using assms(2) by (auto simp: in_set_conv_decomp)
  have npre: "n \<notin> fst ` set pre" and npost: "n \<notin> fst ` set post"
    using assms(1) by (auto simp: ps)
  let ?s1 = "fold read_metadata_entry pre s"
  have same: "registry ?s1 n = registry s n"
    using npre by (rule registry_fold_other)
  have "registry (fold read_metadata_entry ps s) n =
        registry (read_metadata_entry (n, info) ?s1) n"
    using npost by (simp add: ps registry_fold_other)
  also have "\<dots> = registry (read_metadata_entry (n, info) s) n"
    unfolding registry_entry_same same by (rule refl)
  finally show ?thesis .
qed

text \<open>
  C10. The metadata reader leaves the constraint store as it is. For an entry of the
  document (whose keys are distinct), the description of the quantity becomes the value
  of the key \<open>description\<close> when the entry has that key with a value that is not \<open>None\<close>,
  and stays what it was otherwise (undefined for a quantity the reader registers); so
  for \<open>tex\<close>. A quantity that the document does not name keeps its registry entry.
\<close>

theorem metadata_reader_frame:
  "store (read_yaml_object_metadata parameters s) = store s \<and>
   (distinct (map fst parameters) \<longrightarrow>
      (\<forall>(n, info) \<in> set parameters.
         registry (read_yaml_object_metadata parameters s) n =
           Some \<lparr>tex = (case info ''tex'' of Some (Some t) \<Rightarrow> Some t
                   | _ \<Rightarrow> (case registry s n of None \<Rightarrow> None | Some p \<Rightarrow> tex p)),
                 description = (case info ''description'' of Some (Some d) \<Rightarrow> Some d
                   | _ \<Rightarrow> (case registry s n of None \<Rightarrow> None | Some p \<Rightarrow> description p))\<rparr>)) \<and>
   (\<forall>n. n \<notin> fst ` set parameters \<longrightarrow>
      registry (read_yaml_object_metadata parameters s) n = registry s n)"
  unfolding read_yaml_object_metadata_def
  by (auto simp: store_read_metadata registry_fold_other registry_fold_entry registry_entry_same)

theorem metadata_reader_frame_witness:
  "distinct (map fst metadata_example) \<and>
   store (read_yaml_object_metadata metadata_example state_x_example) = [] \<and>
   registry (read_yaml_object_metadata metadata_example state_x_example) ''x'' =
     Some \<lparr>tex = Some ''new'', description = Some ''old''\<rparr> \<and>
   registry (read_yaml_object_metadata metadata_example state_x_example) ''y'' =
     Some \<lparr>tex = None, description = None\<rparr> \<and>
   registry (read_yaml_object_metadata metadata_example state_x_example) ''z'' = None"
proof -
  have d: "distinct (map fst metadata_example)"
    by (simp add: metadata_example_def)
  have x: "(''x'', [''description'' \<mapsto> None, ''tex'' \<mapsto> Some ''new'']) \<in> set metadata_example"
    and y: "(''y'', Map.empty) \<in> set metadata_example"
    and z: "''z'' \<notin> fst ` set metadata_example"
    by (simp_all add: metadata_example_def)
  note frame = metadata_reader_frame [of metadata_example state_x_example]
  have all: "\<forall>(n, info) \<in> set metadata_example.
         registry (read_yaml_object_metadata metadata_example state_x_example) n =
           Some \<lparr>tex = (case info ''tex'' of Some (Some t) \<Rightarrow> Some t
                   | _ \<Rightarrow> (case registry state_x_example n of None \<Rightarrow> None | Some p \<Rightarrow> tex p)),
                 description = (case info ''description'' of Some (Some d) \<Rightarrow> Some d
                   | _ \<Rightarrow> (case registry state_x_example n of None \<Rightarrow> None
                            | Some p \<Rightarrow> description p))\<rparr>"
    using frame d by blast
  have rx: "registry (read_yaml_object_metadata metadata_example state_x_example) ''x'' =
     Some \<lparr>tex = Some ''new'', description = Some ''old''\<rparr>"
    using bspec [OF all x] by (simp add: state_x_example_def)
  have ry: "registry (read_yaml_object_metadata metadata_example state_x_example) ''y'' =
     Some \<lparr>tex = None, description = None\<rparr>"
    using bspec [OF all y] by (simp add: state_x_example_def)
  have rz: "registry (read_yaml_object_metadata metadata_example state_x_example) ''z'' = None"
    using frame z by (simp add: state_x_example_def)
  have st: "store (read_yaml_object_metadata metadata_example state_x_example) = []"
    using frame by (simp add: state_x_example_def)
  show ?thesis using d st rx ry rz by blast
qed

subsection \<open>Claims about unknown names\<close>

lemma read_values_entry_unknown:
  "registry s n = None \<Longrightarrow> read_values_entry build (n, v) s = (Some (KeyError n), s)"
  by (simp add: read_values_entry_def Parameter_getitem_def)

lemma registry_add_constraint: "registry (snd (add_constraint names d s)) = registry s"
  by (simp add: add_constraint_def split: option.splits)

lemma registry_set_constraint: "registry (snd (set_constraint build n v s)) = registry s"
  by (simp add: set_constraint_def registry_add_constraint split: option.splits sum.splits)

lemma registry_read_values_entry: "registry (snd (read_values_entry build e s)) = registry s"
  by (cases e)
     (simp add: read_values_entry_def registry_set_constraint split: sum.splits)

lemma registry_read_values:
  "registry (snd (read_yaml_object_values build es s)) = registry s"
proof (induction es arbitrary: s)
  case Nil
  then show ?case by simp
next
  case (Cons e es)
  obtain r s' where step: "read_values_entry build e s = (r, s')"
    by (cases "read_values_entry build e s")
  have reg: "registry s' = registry s"
    using registry_read_values_entry [of build e s] step by simp
  show ?case
  proof (cases r)
    case None
    with step Cons.IH [of s'] reg show ?thesis by simp
  next
    case (Some err)
    with step reg show ?thesis by simp
  qed
qed

lemma read_values_append:
  "read_yaml_object_values build pre s0 = (None, s) \<Longrightarrow>
     read_yaml_object_values build (pre @ rest) s0 = read_yaml_object_values build rest s"
proof (induction pre arbitrary: s0)
  case Nil
  then show ?case by simp
next
  case (Cons e pre)
  obtain r s' where step: "read_values_entry build e s0 = (r, s')"
    by (cases "read_values_entry build e s0")
  show ?case
  proof (cases r)
    case None
    with step Cons show ?thesis by simp
  next
    case (Some err)
    with step Cons.prems show ?thesis by simp
  qed
qed

lemma read_values_fails:
  "n \<in> fst ` set es \<Longrightarrow> registry s n = None \<Longrightarrow>
     fst (read_yaml_object_values build es s) \<noteq> None"
proof (induction es arbitrary: s)
  case Nil
  then show ?case by simp
next
  case (Cons e es)
  obtain r s' where step: "read_values_entry build e s = (r, s')"
    by (cases "read_values_entry build e s")
  have reg: "registry s' = registry s"
    using registry_read_values_entry [of build e s] step by simp
  show ?case
  proof (cases r)
    case (Some err)
    with step show ?thesis by simp
  next
    case None
    have "fst e \<noteq> n"
    proof
      assume "fst e = n"
      then have "read_values_entry build e s = (Some (KeyError n), s)"
        using Cons.prems(2) read_values_entry_unknown [of s n build "snd e"] by (cases e) simp
      with step None show False by simp
    qed
    then have "n \<in> fst ` set es"
      using Cons.prems(1) by auto
    then have "fst (read_yaml_object_values build es s') \<noteq> None"
      using Cons.IH [of s'] reg Cons.prems(2) by simp
    with step None show ?thesis by simp
  qed
qed

lemma read_group_entry_unknown:
  "registry s n = None \<Longrightarrow>
     read_group_entry errors_from_string s ((n, v) # rest) acc = Inl (KeyError n)"
  by (cases acc) (simp add: read_group_entry_def Parameter_getitem_def)

lemma read_group_values_append:
  "read_group_values efs s pre acc = Inr acc' \<Longrightarrow>
     read_group_values efs s (pre @ rest) acc = read_group_values efs s rest acc'"
proof (induction pre arbitrary: acc)
  case Nil
  then show ?case by simp
next
  case (Cons dl pre)
  then show ?case
    by (cases "read_group_entry efs s dl acc") simp_all
qed

lemma read_group_unknown:
  assumes "registry s n = None" "values g = pre @ ((n, v) # rest) # post"
    "read_group_values efs s pre ([], [], []) = Inr acc"
  shows "read_group efs fixm eigvals g s = (Some (KeyError n), s)"
proof -
  have "read_group_values efs s (values g) ([], [], []) = Inl (KeyError n)"
    unfolding assms(2)
    using read_group_values_append [OF assms(3), of "((n, v) # rest) # post"]
      read_group_entry_unknown [OF assms(1), of efs v rest acc]
    by simp
  then show ?thesis by (simp add: read_group_def)
qed

text \<open>
  C8. When the values reader reaches an entry whose name is not registered, the lookup
  raises the \<open>KeyError\<close> of that name and the state, the constraint store with it, is
  the one in which the entry was reached: neither \<open>set_constraint\<close> nor
  \<open>add_constraint\<close> has run for the entry. So it is for the reader of correlated values,
  whose lookup fails before the group reaches \<open>add_constraint\<close>. A values document
  with a name that is not registered is never read without an error.
\<close>

theorem unknown_name_rejected:
  assumes "registry s n = None"
  shows "read_values_entry build (n, v) s = (Some (KeyError n), s) \<and>
    (\<forall>pre s0. read_yaml_object_values build pre s0 = (None, s) \<longrightarrow>
       read_yaml_object_values build (pre @ (n, v) # post) s0 = (Some (KeyError n), s)) \<and>
    (\<forall>es. n \<in> fst ` set es \<longrightarrow> fst (read_yaml_object_values build es s) \<noteq> None) \<and>
    read_group_entry efs s ((n, w) # rest) acc = Inl (KeyError n) \<and>
    (\<forall>g gs pre' post' acc'.
       values g = pre' @ ((n, w) # rest) # post' \<and>
       read_group_values efs s pre' ([], [], []) = Inr acc' \<longrightarrow>
       read_group efs fixm eigvals g s = (Some (KeyError n), s) \<and>
       read_yaml_object_values_correlated efs fixm eigvals (g # gs) s = (Some (KeyError n), s))"
proof -
  have e: "read_values_entry build (n, v) s = (Some (KeyError n), s)"
    using assms by (rule read_values_entry_unknown)
  have l: "read_yaml_object_values build (pre @ (n, v) # post) s0 = (Some (KeyError n), s)"
    if "read_yaml_object_values build pre s0 = (None, s)" for pre s0
    using read_values_append [OF that, of "(n, v) # post"] e by simp
  have f: "fst (read_yaml_object_values build es s) \<noteq> None" if "n \<in> fst ` set es" for es
    using that assms by (rule read_values_fails)
  have ge: "read_group_entry efs s ((n, w) # rest) acc = Inl (KeyError n)"
    using assms by (rule read_group_entry_unknown)
  have g: "read_group efs fixm eigvals g s = (Some (KeyError n), s) \<and>
       read_yaml_object_values_correlated efs fixm eigvals (g # gs) s = (Some (KeyError n), s)"
    if "values g = pre' @ ((n, w) # rest) # post'"
      "read_group_values efs s pre' ([], [], []) = Inr acc'" for g gs pre' post' acc'
    using read_group_unknown [OF assms that, of fixm eigvals] by simp
  show ?thesis
    using e l f ge g by blast
qed

theorem unknown_name_rejected_witness:
  "registry state_x_example ''y'' = None \<and>
   read_yaml_object_values build_example [(''x'', 3)] state_x_example =
     (None, state_x_example\<lparr>store := [([''x''], NormalDistribution 3 1)]\<rparr>) \<and>
   read_yaml_object_values build_example values_example state_x_example =
     (Some (KeyError ''y''), state_x_example\<lparr>store := [([''x''], NormalDistribution 3 1)]\<rparr>)"
proof -
  let ?s = "state_x_example\<lparr>store := [([''x''], NormalDistribution 3 1)]\<rparr>"
  have un: "registry ?s ''y'' = None"
    by (simp add: state_x_example_def)
  have pre: "read_yaml_object_values build_example [(''x'', 3)] state_x_example = (None, ?s)"
    by (simp add: read_values_entry_def Parameter_getitem_def set_constraint_def
        add_constraint_def build_example_def state_x_example_def)
  have "read_yaml_object_values build_example ([(''x'', 3)] @ (''y'', 4) # [(''x'', 5)])
          state_x_example = (Some (KeyError ''y''), ?s)"
    using unknown_name_rejected [OF un, THEN conjunct2, THEN conjunct1, rule_format,
        of build_example "[(''x'', 3)]" state_x_example 4 "[(''x'', 5)]"] pre
    by simp
  then show ?thesis
    using pre by (simp add: values_example_def state_x_example_def)
qed

subsection \<open>The reader of correlated values\<close>

lemma fold_symmetric: "fold (\<lambda>sym_err acc. acc + sym_err ^ 2) xs (a::real) =
    a + sum_list (map (\<lambda>sym. sym ^ 2) xs)"
  by (induction xs arbitrary: a) simp_all

lemma fold_asymmetric:
  "fold (\<lambda>asym_err acc. acc + fst asym_err * snd asym_err) xs (a::real) =
    a + sum_list (map (\<lambda>(upper, lower). upper * lower) xs)"
  by (induction xs arbitrary: a) (simp_all add: case_prod_beta)

lemma squared_error_sum:
  "squared_error ed =
     sum_list (map (\<lambda>sym. sym ^ 2) (symmetric_errors ed)) +
     sum_list (map (\<lambda>(upper, lower). upper * lower) (asymmetric_errors ed))"
  by (simp add: squared_error_def fold_symmetric fold_asymmetric)

lemma py_sqrt_total:
  "py_sqrt (squared_error ed) = Inr e \<Longrightarrow> e = spec_total_error ed"
  by (simp add: py_sqrt_def spec_total_error_def squared_error_sum split: if_splits)

lemma read_group_entry_result:
  assumes "read_group_entry efs s dl (ns, cs, es) = Inr acc'"
  shows "\<exists>r. entry_result efs s dl r \<and>
             acc' = (ns @ [fst r], cs @ [fst (snd r)], es @ [snd (snd r)])"
proof (cases dl)
  case Nil
  with assms show ?thesis by (simp add: read_group_entry_def)
next
  case (Cons item rest)
  obtain n v where item: "item = (n, v)" by (cases item)
  from assms obtain p where p: "registry s n = Some p"
    by (auto simp: read_group_entry_def Cons item Parameter_getitem_def
          split: option.splits)
  from assms p obtain ed where ed: "efs v = Inr ed"
    by (auto simp: read_group_entry_def Cons item Parameter_getitem_def split: sum.splits)
  from assms p ed obtain e where e: "py_sqrt (squared_error ed) = Inr e"
    by (auto simp: read_group_entry_def Cons item Parameter_getitem_def split: sum.splits)
  have acc': "acc' = (ns @ [n], cs @ [central_value ed], es @ [e])"
    using assms p ed e by (simp add: read_group_entry_def Cons item Parameter_getitem_def)
  have "entry_result efs s dl (n, central_value ed, e)"
    using p ed py_sqrt_total [OF e]
    by (auto simp: entry_result_def Cons item registered_def)
  then show ?thesis using acc' by force
qed

lemma read_group_values_result:
  "read_group_values efs s dls (ns, cs, es) = Inr (ns', cs', es') \<Longrightarrow>
     \<exists>rs. list_all2 (entry_result efs s) dls rs \<and>
          ns' = ns @ map fst rs \<and> cs' = cs @ map (fst \<circ> snd) rs \<and>
          es' = es @ map (snd \<circ> snd) rs"
proof (induction dls arbitrary: ns cs es)
  case Nil
  then show ?case by simp
next
  case (Cons dl dls)
  from Cons.prems obtain acc1 where
    step: "read_group_entry efs s dl (ns, cs, es) = Inr acc1" and
    rest: "read_group_values efs s dls acc1 = Inr (ns', cs', es')"
    by (auto split: sum.splits)
  from read_group_entry_result [OF step] obtain r where
    r: "entry_result efs s dl r"
    and acc1: "acc1 = (ns @ [fst r], cs @ [fst (snd r)], es @ [snd (snd r)])"
    by blast
  from Cons.IH [OF rest [unfolded acc1]] obtain rs where
    rs: "list_all2 (entry_result efs s) dls rs"
      "ns' = (ns @ [fst r]) @ map fst rs"
      "cs' = (cs @ [fst (snd r)]) @ map (fst \<circ> snd) rs"
      "es' = (es @ [snd (snd r)]) @ map (snd \<circ> snd) rs"
    by blast
  have "list_all2 (entry_result efs s) (dl # dls) (r # rs)"
    using r rs(1) by simp
  moreover have "ns' = ns @ map fst (r # rs)" "cs' = cs @ map (fst \<circ> snd) (r # rs)"
    "es' = es @ map (snd \<circ> snd) (r # rs)"
    using rs(2-4) by simp_all
  ultimately show ?case by blast
qed

lemma read_group_values_registered:
  assumes "read_group_values efs s dls ([], [], []) = Inr (names, cvs, errs)"
  shows "\<forall>n \<in> set names. registry s n \<noteq> None"
proof -
  from read_group_values_result [OF assms] obtain rs where
    rs: "list_all2 (entry_result efs s) dls rs" and names: "names = map fst rs"
    by auto
  have one: "registered s (fst r)" if "entry_result efs s dl r" for dl r
    using that by (cases r) (auto simp: entry_result_def)
  have "\<forall>r \<in> set rs. registered s (fst r)"
    using rs one by (induction dls rs rule: list_all2_induct) auto
  then show ?thesis
    by (simp add: names registered_def)
qed

lemma read_group_values_length:
  assumes "read_group_values efs s dls ([], [], []) = Inr (names, cvs, errs)"
  shows "length names = length dls \<and> length cvs = length dls \<and> length errs = length dls"
proof -
  from read_group_values_result [OF assms] obtain rs where
    "list_all2 (entry_result efs s) dls rs" "names = map fst rs"
    "cvs = map (fst \<circ> snd) rs" "errs = map (snd \<circ> snd) rs"
    by auto
  then show ?thesis by (auto dest: list_all2_lengthD)
qed

lemma sqrt_square: "0 \<le> y \<Longrightarrow> sqrt (y * y) = (y::real)"
  by simp

lemma sqrt_25: "sqrt 25 = 5"
  using sqrt_square [of 5] by simp

lemma read_group_values_example:
  "read_group_values parsed_example state_ab_example (values (group_example M)) ([], [], []) =
     Inr ([''a'', ''b''], [1, 2], [5, 5])"
  by (simp add: group_example_def read_group_entry_def Parameter_getitem_def
      state_ab_example_def parsed_example_def ed_a_example_def ed_b_example_def
      squared_error_def py_sqrt_def sqrt_25)

text \<open>
  C4. When the loop over the values of a group ends, its list \<open>errors\<close> has one entry
  for each dictionary of the group, the total error of the value of the first item of
  the dictionary: the square root of the sum of the squares of its symmetric errors and
  of the products of the two magnitudes of its asymmetric errors. The accumulated
  \<open>squared_error\<close> is that sum.
\<close>

theorem total_error_formula:
  "squared_error ed =
     sum_list (map (\<lambda>sym. sym ^ 2) (symmetric_errors ed)) +
     sum_list (map (\<lambda>(upper, lower). upper * lower) (asymmetric_errors ed)) \<and>
   (read_group_values efs s dls ([], [], []) = Inr (names, cvs, errs) \<longrightarrow>
      list_all2
        (\<lambda>dl err. \<exists>n v rest ed'. dl = (n, v) # rest \<and> efs v = Inr ed' \<and>
           err = sqrt (sum_list (map (\<lambda>sym. sym ^ 2) (symmetric_errors ed')) +
                       sum_list (map (\<lambda>(upper, lower). upper * lower)
                                  (asymmetric_errors ed'))))
        dls errs)"
proof -
  have "list_all2
        (\<lambda>dl err. \<exists>n v rest ed'. dl = (n, v) # rest \<and> efs v = Inr ed' \<and>
           err = sqrt (sum_list (map (\<lambda>sym. sym ^ 2) (symmetric_errors ed')) +
                       sum_list (map (\<lambda>(upper, lower). upper * lower)
                                  (asymmetric_errors ed'))))
        dls errs"
    if run: "read_group_values efs s dls ([], [], []) = Inr (names, cvs, errs)"
  proof -
    from read_group_values_result [OF run] obtain rs where
      rs: "list_all2 (entry_result efs s) dls rs" and errs: "errs = map (snd \<circ> snd) rs"
      by auto
    have "list_all2
        (\<lambda>dl r. \<exists>n v rest ed'. dl = (n, v) # rest \<and> efs v = Inr ed' \<and>
           snd (snd r) = sqrt (sum_list (map (\<lambda>sym. sym ^ 2) (symmetric_errors ed')) +
                       sum_list (map (\<lambda>(upper, lower). upper * lower)
                                  (asymmetric_errors ed'))))
        dls rs"
      using rs
      by (rule list_all2_mono) (auto simp: entry_result_def spec_total_error_def)
    then show ?thesis
      by (simp add: errs list_all2_map2)
  qed
  then show ?thesis
    using squared_error_sum [of ed] by blast
qed

theorem total_error_formula_witness:
  "read_group_values parsed_example state_ab_example
      [[(''a'', ed_a_example)], [(''b'', ed_b_example)]] ([], [], []) =
     Inr ([''a'', ''b''], [1, 2], [5, 5]) \<and>
   squared_error ed_a_example = 3 ^ 2 + 8 * 2 \<and>
   list_all2
     (\<lambda>dl err. \<exists>n v rest ed'. dl = (n, v) # rest \<and> parsed_example v = Inr ed' \<and>
        err = sqrt (sum_list (map (\<lambda>sym. sym ^ 2) (symmetric_errors ed')) +
                    sum_list (map (\<lambda>(upper, lower). upper * lower) (asymmetric_errors ed'))))
     [[(''a'', ed_a_example)], [(''b'', ed_b_example)]] [5, 5]"
proof -
  have run: "read_group_values parsed_example state_ab_example
      [[(''a'', ed_a_example)], [(''b'', ed_b_example)]] ([], [], []) =
     Inr ([''a'', ''b''], [1, 2], [5, 5])"
    using read_group_values_example [of "[]"] by (simp add: group_example_def)
  have sq: "squared_error ed_a_example = 3 ^ 2 + 8 * 2"
    using total_error_formula [THEN conjunct1, of ed_a_example] by (simp add: ed_a_example_def)
  show ?thesis
    using total_error_formula [of ed_a_example parsed_example state_ab_example
        "[[(''a'', ed_a_example)], [(''b'', ed_b_example)]]" "[''a'', ''b'']" "[1, 2]" "[5, 5]"]
      run sq
    by blast
qed

lemma nth_map2:
  "i < length xs \<Longrightarrow> i < length ys \<Longrightarrow> map2 f xs ys ! i = f (xs ! i) (ys ! i)"
  by simp

lemma eye_nth: "i < n \<Longrightarrow> j < n \<Longrightarrow> eye n ! i ! j = (if i = j then 1 else 0)"
  by (simp add: eye_def)

lemma is_square_row: "is_square n M \<Longrightarrow> i < n \<Longrightarrow> length (M ! i) = n"
  by (simp add: is_square_def list_all_length)

lemma is_square_length: "is_square n M \<Longrightarrow> length M = n"
  by (simp add: is_square_def)

lemma is_square_eye: "is_square n (eye n)"
  by (simp add: is_square_def eye_def list_all_length)

lemma build_covariance_nth:
  assumes "length errs = n" "is_square n corr" "i < n" "j < n"
  shows "build_covariance errs corr ! i ! j = errs ! i * errs ! j * corr ! i ! j"
  using assms is_square_row [OF assms(2,3)]
  by (simp add: build_covariance_def mat_times_def outer_def is_square_length)

lemma damp_correlation_nth:
  assumes "is_square n corr" "i < n" "j < n"
  shows "damp_correlation corr ! i ! j =
           (corr ! i ! j - (if i = j then 1 else 0)) * (99 / 100) + (if i = j then 1 else 0)"
proof -
  have len: "length corr = n" and row: "length (corr ! i) = n"
    using assms by (simp_all add: is_square_length is_square_row)
  have e: "length (eye n) = n" "length (eye n ! i) = n"
    using assms(2) by (simp_all add: eye_def)
  show ?thesis
    using assms(2,3) len row e
    by (simp add: damp_correlation_def Let_def mat_plus_def mat_scale_def mat_minus_def eye_nth)
qed

lemma fix_correlation_matrix_square:
  "fix_correlation_matrix fixm c n = Inr corr \<Longrightarrow> is_square n corr"
  by (auto simp: fix_correlation_matrix_def split: sum.splits if_splits)

lemma read_group_cases:
  assumes "read_group_values efs s (values g) ([], [], []) = Inr (names, cvs, errs)"
    "fix_correlation_matrix fixm (correlation g) (length names) = Inr corr"
  shows "read_group efs fixm eigvals g s =
    (if positive_definite eigvals (build_covariance errs corr)
     then (None, s\<lparr>store := store s @
             [(names, MultivariateNormalDistribution cvs (build_covariance errs corr))]\<rparr>)
     else if positive_definite eigvals (build_covariance errs (damp_correlation corr))
     then (None, s\<lparr>store := store s @
             [(names, MultivariateNormalDistribution cvs
                        (build_covariance errs (damp_correlation corr)))]\<rparr>)
     else (Some (AssertionError not_positive_definite_msg
                   (build_covariance errs (damp_correlation corr))), s))"
proof -
  have reg: "\<forall>n \<in> set names. registry s n \<noteq> None"
    using assms(1) by (rule read_group_values_registered)
  show ?thesis
    by (simp add: read_group_def assms Let_def add_constraint_registered [OF reg])
qed

text \<open>
  C2. When the covariance built from the fixed correlation matrix is not positive
  definite, the reader of correlated values damps the correlation once, to
  \<open>(M - I) * 0.99 + I\<close>, and builds the covariance again. When that covariance passes
  the test, the reader adds the group with it and goes on; when it does not, the reader
  stops with the \<open>AssertionError\<close> that carries that covariance, and the state is the one
  in which the group was reached.
\<close>

theorem covariance_repaired_once:
  assumes "read_group_values efs s (values g) ([], [], []) = Inr (names, cvs, errs)"
    "fix_correlation_matrix fixm (correlation g) (length names) = Inr corr"
    "\<not> positive_definite eigvals (build_covariance errs corr)"
  shows
   "(positive_definite eigvals (build_covariance errs (damp_correlation corr)) \<longrightarrow>
       read_yaml_object_values_correlated efs fixm eigvals (g # gs) s =
         read_yaml_object_values_correlated efs fixm eigvals gs
           (s\<lparr>store := store s @
               [(names, MultivariateNormalDistribution cvs
                          (build_covariance errs (damp_correlation corr)))]\<rparr>)) \<and>
    (\<not> positive_definite eigvals (build_covariance errs (damp_correlation corr)) \<longrightarrow>
       read_yaml_object_values_correlated efs fixm eigvals (g # gs) s =
         (Some (AssertionError not_positive_definite_msg
                  (build_covariance errs (damp_correlation corr))), s)) \<and>
    (\<forall>i < length names. \<forall>j < length names.
       damp_correlation corr ! i ! j =
         (corr ! i ! j - (if i = j then 1 else 0)) * (99 / 100) + (if i = j then 1 else 0))"
proof -
  have sq: "is_square (length names) corr"
    using assms(2) by (rule fix_correlation_matrix_square)
  have entries: "\<forall>i < length names. \<forall>j < length names.
       damp_correlation corr ! i ! j =
         (corr ! i ! j - (if i = j then 1 else 0)) * (99 / 100) + (if i = j then 1 else 0)"
    using damp_correlation_nth [OF sq] by blast
  show ?thesis
    using entries assms(3) by (simp add: read_group_cases [OF assms(1,2)])
qed

text \<open>
  C3. When the covariance built from the fixed correlation matrix passes the test, the
  reader adds the group with exactly that covariance, whose entry \<open>(i, j)\<close> is the
  product of the two total errors and the correlation; a group that the reader adds
  with another covariance is one whose undamped covariance fails the test.
\<close>

theorem positive_definite_covariance_kept:
  assumes "read_group_values efs s (values g) ([], [], []) = Inr (names, cvs, errs)"
    "fix_correlation_matrix fixm (correlation g) (length names) = Inr corr"
  shows
   "(positive_definite eigvals (build_covariance errs corr) \<longrightarrow>
       read_group efs fixm eigvals g s =
         (None, s\<lparr>store := store s @
            [(names, MultivariateNormalDistribution cvs (build_covariance errs corr))]\<rparr>) \<and>
       read_yaml_object_values_correlated efs fixm eigvals (g # gs) s =
         read_yaml_object_values_correlated efs fixm eigvals gs
           (s\<lparr>store := store s @
               [(names, MultivariateNormalDistribution cvs (build_covariance errs corr))]\<rparr>)) \<and>
    (\<forall>s'. read_group efs fixm eigvals g s = (None, s') \<and>
          last (store s') \<noteq>
            (names, MultivariateNormalDistribution cvs (build_covariance errs corr)) \<longrightarrow>
          \<not> positive_definite eigvals (build_covariance errs corr)) \<and>
    (\<forall>i < length names. \<forall>j < length names.
       build_covariance errs corr ! i ! j = errs ! i * errs ! j * corr ! i ! j)"
proof -
  have sq: "is_square (length names) corr"
    using assms(2) by (rule fix_correlation_matrix_square)
  have len: "length errs = length names"
    using read_group_values_length [OF assms(1)] by simp
  have entries: "\<forall>i < length names. \<forall>j < length names.
       build_covariance errs corr ! i ! j = errs ! i * errs ! j * corr ! i ! j"
    using build_covariance_nth [OF len sq] by blast
  have only: "\<not> positive_definite eigvals (build_covariance errs corr)"
    if "read_group efs fixm eigvals g s = (None, s')"
      "last (store s') \<noteq> (names, MultivariateNormalDistribution cvs (build_covariance errs corr))"
    for s'
    using that by (auto simp: read_group_cases [OF assms] split: if_splits)
  show ?thesis
    using entries only by (simp add: read_group_cases [OF assms])
qed

lemma sqrt_900: "sqrt 900 = 30"
  using sqrt_square [of 30] by simp

lemma sqrt_2500: "sqrt 2500 = 50"
  using sqrt_square [of 50] by simp

lemma sqrt_10000: "sqrt 10000 = 100"
  using sqrt_square [of 100] by simp

lemma sqrt_9801: "sqrt 9801 = 99"
  using sqrt_square [of 99] by simp

lemma sqrt_9801_4: "sqrt (9801 / 4) = 99 / 2"
  using sqrt_square [of "99 / 2"] by simp

lemma fix_example:
  "fix_correlation_matrix fixm_example [[a, b], [c, d]] (length [''a'', ''b'']) =
     Inr [[a, b], [c, d]]"
  by (simp add: fix_correlation_matrix_def fixm_example_def is_square_def)

lemma build_covariance_example:
  "build_covariance [5, 5] [[a, b], [c, d]] = [[25 * a, 25 * b], [25 * c, 25 * d]]"
  by (simp add: build_covariance_def mat_times_def outer_def)

lemma damp_correlation_example:
  "damp_correlation [[1, b], [c, 1]] = [[1, b * (99 / 100)], [c * (99 / 100), 1]]"
  by (simp add: damp_correlation_def Let_def mat_plus_def mat_scale_def mat_minus_def eye_def
      upt_rec)

lemma positive_definite_example:
  "positive_definite eigvals_example [[a, b], [c, d]] \<longleftrightarrow>
     0 < (a + d + sqrt ((a - d) ^ 2 + 4 * b * c)) / 2 \<and>
     0 < (a + d - sqrt ((a - d) ^ 2 + 4 * b * c)) / 2"
  by (simp add: positive_definite_def eigvals_example_def)

theorem positive_definite_covariance_kept_witness:
  "read_group_values parsed_example state_ab_example (values (group_example corr_ok_example))
      ([], [], []) = Inr ([''a'', ''b''], [1, 2], [5, 5]) \<and>
   positive_definite eigvals_example (build_covariance [5, 5] corr_ok_example) \<and>
   read_yaml_object_values_correlated parsed_example fixm_example eigvals_example
      [group_example corr_ok_example] state_ab_example =
     (None, state_ab_example
        \<lparr>store := [([''a'', ''b''],
                     MultivariateNormalDistribution [1, 2] [[25, 15], [15, 25]])]\<rparr>)"
proof -
  let ?g = "group_example corr_ok_example"
  have run: "read_group_values parsed_example state_ab_example (values ?g) ([], [], []) =
      Inr ([''a'', ''b''], [1, 2], [5, 5])"
    by (rule read_group_values_example)
  have fx: "fix_correlation_matrix fixm_example (correlation ?g) (length [''a'', ''b'']) =
      Inr corr_ok_example"
    unfolding corr_ok_example_def group_example_def using fix_example by simp
  have cov: "build_covariance [5, 5] corr_ok_example = [[25, 15], [15, 25]]"
    by (simp add: corr_ok_example_def build_covariance_example)
  have pd: "positive_definite eigvals_example (build_covariance [5, 5] corr_ok_example)"
    by (simp add: cov positive_definite_example sqrt_900)
  have "read_yaml_object_values_correlated parsed_example fixm_example eigvals_example
      [?g] state_ab_example =
     (None, state_ab_example\<lparr>store := store state_ab_example @
         [([''a'', ''b''], MultivariateNormalDistribution [1, 2]
               (build_covariance [5, 5] corr_ok_example))]\<rparr>)"
    using positive_definite_covariance_kept [OF run fx, of eigvals_example "[]"] pd by simp
  then show ?thesis
    using run pd by (simp add: cov state_ab_example_def)
qed

theorem covariance_repaired_once_witness:
  "\<not> positive_definite eigvals_example (build_covariance [5, 5] corr_full_example) \<and>
   read_yaml_object_values_correlated parsed_example fixm_example eigvals_example
      [group_example corr_full_example] state_ab_example =
     (None, state_ab_example
        \<lparr>store := [([''a'', ''b''],
                     MultivariateNormalDistribution [1, 2] [[25, 99 / 4], [99 / 4, 25]])]\<rparr>) \<and>
   \<not> positive_definite eigvals_example (build_covariance [5, 5] corr_bad_example) \<and>
   read_yaml_object_values_correlated parsed_example fixm_example eigvals_example
      [group_example corr_bad_example, group_example corr_ok_example] state_ab_example =
     (Some (AssertionError not_positive_definite_msg [[25, 99 / 2], [99 / 2, 25]]),
      state_ab_example)"
proof -
  have run: "read_group_values parsed_example state_ab_example (values (group_example M))
      ([], [], []) = Inr ([''a'', ''b''], [1, 2], [5, 5])" for M
    by (rule read_group_values_example)
  have fix_full: "fix_correlation_matrix fixm_example (correlation (group_example corr_full_example))
      (length [''a'', ''b'']) = Inr corr_full_example"
    unfolding corr_full_example_def group_example_def using fix_example by simp
  have fix_bad: "fix_correlation_matrix fixm_example (correlation (group_example corr_bad_example))
      (length [''a'', ''b'']) = Inr corr_bad_example"
    unfolding corr_bad_example_def group_example_def using fix_example by simp
  have npd_full: "\<not> positive_definite eigvals_example (build_covariance [5, 5] corr_full_example)"
    by (simp add: corr_full_example_def build_covariance_example positive_definite_example
        sqrt_2500)
  have npd_bad: "\<not> positive_definite eigvals_example (build_covariance [5, 5] corr_bad_example)"
    by (simp add: corr_bad_example_def build_covariance_example positive_definite_example
        sqrt_10000)
  have cov_full: "build_covariance [5, 5] (damp_correlation corr_full_example) =
      [[25, 99 / 4], [99 / 4, 25]]"
    by (simp add: corr_full_example_def damp_correlation_example build_covariance_example)
  have cov_bad: "build_covariance [5, 5] (damp_correlation corr_bad_example) =
      [[25, 99 / 2], [99 / 2, 25]]"
    by (simp add: corr_bad_example_def damp_correlation_example build_covariance_example)
  have pd_full: "positive_definite eigvals_example [[25, 99 / 4], [99 / 4, 25]]"
    by (simp add: positive_definite_example sqrt_9801_4)
  have npd_bad': "\<not> positive_definite eigvals_example [[25, 99 / 2], [99 / 2, 25]]"
    by (simp add: positive_definite_example sqrt_9801)
  have repaired: "read_yaml_object_values_correlated parsed_example fixm_example eigvals_example
      [group_example corr_full_example] state_ab_example =
     (None, state_ab_example\<lparr>store := store state_ab_example @
        [([''a'', ''b''], MultivariateNormalDistribution [1, 2] [[25, 99 / 4], [99 / 4, 25]])]\<rparr>)"
    using covariance_repaired_once [OF run fix_full npd_full, of "[]"] pd_full
    by (simp add: cov_full)
  have failed: "read_yaml_object_values_correlated parsed_example fixm_example eigvals_example
      [group_example corr_bad_example, group_example corr_ok_example] state_ab_example =
     (Some (AssertionError not_positive_definite_msg [[25, 99 / 2], [99 / 2, 25]]),
      state_ab_example)"
    using covariance_repaired_once [OF run fix_bad npd_bad, of "[group_example corr_ok_example]"]
      npd_bad'
    by (simp add: cov_bad)
  show ?thesis
    using npd_full npd_bad repaired failed by (simp add: state_ab_example_def)
qed

end
